theory Spec2Isabelle
  imports Main
begin

section \<open>JavaScript strings and values\<close>

text \<open>
  A JavaScript string is a sequence of UTF-16 code units; a code unit is modelled as a
  natural number. \<open>lit\<close> turns an ASCII literal of the source into such a string.
\<close>

type_synonym jsstring = "nat list"

definition lit :: "string \<Rightarrow> jsstring" where
  "lit s = map of_char s"

text \<open>
  The values the program handles: \<open>process.env.PORT\<close> is \<open>undefined\<close> or a string, the
  exit code of a child is a number or \<open>null\<close>, the two port constants are numbers.
\<close>

datatype jsval = Undefined | Null | Str jsstring | Num int

fun truthy :: "jsval \<Rightarrow> bool" where
  "truthy Undefined = False"
| "truthy Null = False"
| "truthy (Str s) = (s \<noteq> [])"
| "truthy (Num n) = (n \<noteq> 0)"

text \<open>\<open>a || b\<close>: the left operand when it is truthy, the right one otherwise.\<close>

definition js_or :: "jsval \<Rightarrow> jsval \<Rightarrow> jsval" where
  "js_or a b = (if truthy a then a else b)"

text \<open>Decimal rendering of an integer, as a template literal interpolates a number.\<close>

definition digit :: "nat \<Rightarrow> nat" where
  "digit d = 48 + d"

function number_to_string :: "nat \<Rightarrow> jsstring" where
  "number_to_string n =
     (if n < 10 then [digit n] else number_to_string (n div 10) @ [digit (n mod 10)])"
  by pat_completeness auto
termination
proof (relation "measure id")
  show "wf (measure id)" by simp
next
  fix n :: nat
  assume "\<not> n < 10"
  then have "n div 10 < n" by (intro div_less_dividend) simp_all
  then show "(n div 10, n) \<in> measure id" by simp
qed

declare number_to_string.simps [simp del]

definition int_to_string :: "int \<Rightarrow> jsstring" where
  "int_to_string i =
     (if i < 0 then lit ''-'' @ number_to_string (nat (- i)) else number_to_string (nat i))"

text \<open>\<open>${v}\<close> inside a template literal.\<close>

fun to_string :: "jsval \<Rightarrow> jsstring" where
  "to_string Undefined = lit ''undefined''"
| "to_string Null = lit ''null''"
| "to_string (Str s) = s"
| "to_string (Num n) = int_to_string n"

text \<open>
  \<open>String.prototype.trim\<close> removes the code units of the ECMAScript productions
  \<open>WhiteSpace\<close> and \<open>LineTerminator\<close> from both ends of the string.
\<close>

definition is_white_space :: "nat \<Rightarrow> bool" where
  "is_white_space c \<longleftrightarrow>
     c \<in> {0x09, 0x0A, 0x0B, 0x0C, 0x0D, 0x20, 0xA0, 0x1680,
          0x2028, 0x2029, 0x202F, 0x205F, 0x3000, 0xFEFF}
     \<or> (0x2000 \<le> c \<and> c \<le> 0x200A)"

definition trim :: "jsstring \<Rightarrow> jsstring" where
  "trim s = rev (dropWhile is_white_space (rev (dropWhile is_white_space s)))"

text \<open>
  \<open>String.prototype.trimEnd\<close> and the split of a text into its lines (each line ended by
  a line feed, a last unterminated line counted too) are not used by the program; they
  are the vocabulary of "a line, trimmed of trailing whitespace".
\<close>

definition trimEnd :: "jsstring \<Rightarrow> jsstring" where
  "trimEnd s = rev (dropWhile is_white_space (rev s))"

fun lines_from :: "jsstring \<Rightarrow> jsstring \<Rightarrow> jsstring list" where
  "lines_from cur [] = (if cur = [] then [] else [cur])"
| "lines_from cur (c # cs) =
     (if c = 0x0A then cur # lines_from [] cs else lines_from (cur @ [c]) cs)"

definition lines_of :: "jsstring \<Rightarrow> jsstring list" where
  "lines_of s = lines_from [] s"


section \<open>HTTP requests and responses\<close>

text \<open>
  A request as Node.js hands it to the application: the method, the request target, the
  \<open>Host\<close> header, the other headers by their lower-cased names, and the body.
\<close>

record request =
  verb :: jsstring
  url :: jsstring
  host :: jsstring
  headers :: "jsstring \<rightharpoonup> jsstring"
  body :: "nat list"

record response =
  status :: nat
  content_type :: "jsstring option"
  payload :: "nat list"


section \<open>The process, its children and its console\<close>

datatype console_method = ConsoleLog | ConsoleError

text \<open>
  A child process handle emits \<open>'data'\<close> on its two output streams, and \<open>'close'\<close> and
  \<open>'error'\<close> itself. The program registers the three arrow functions of lines 19, 23
  and 27 of \<open>server.js\<close> as listeners.
\<close>

datatype hook = StdoutData | StderrData | ProcClose | ProcError

datatype listener = OnStdoutData | OnStderrData | OnClose

datatype signal = Chunk jsstring | ExitCode "int option" | SpawnFailure

record child =
  command :: jsstring
  args :: "jsstring list"
  listeners :: "(hook \<times> listener) list"

text \<open>The options object given to \<open>createProxyMiddleware\<close>.\<close>

record proxy_options =
  target :: jsstring
  changeOrigin :: bool

text \<open>A middleware of the Express application, with the path it is mounted at.\<close>

datatype middleware = ProxyMiddleware proxy_options | ServeStatic jsstring

record layer =
  mount :: jsstring
  handler :: middleware

text \<open>What a server listens on once it is bound: a TCP port or a pipe (a socket file).\<close>

datatype address = Port nat | Pipe jsstring

text \<open>
  The state of the gateway process: the middleware stack of \<open>app\<close>, the argument given to
  \<open>app.listen\<close>, whether the listen callback is still to be run and whether it is also
  registered for the server's \<open>'error'\<close> event, the address the server listens on once it
  is bound, the child process handles created by \<open>spawn\<close>, what was written to the
  console, and the exit status once the process has terminated.
\<close>

record gateway =
  stack :: "layer list"
  listen_arg :: "jsval option"
  callback_pending :: bool
  callback_on_error :: bool
  address :: "address option"
  children :: "child list"
  console :: "(console_method \<times> jsstring) list"
  exit_status :: "int option"

definition bound :: "gateway \<Rightarrow> bool" where
  "bound st \<longleftrightarrow> address st \<noteq> None"

definition fresh :: gateway where
  "fresh = \<lparr>stack = [], listen_arg = None, callback_pending = False,
     callback_on_error = False, address = None, children = [], console = [],
     exit_status = None\<rparr>"

text \<open>
  An exception that nothing catches, and an \<open>'error'\<close> event that no listener takes and
  that is therefore thrown: the program installs no handler for uncaught exceptions, so
  Node.js ends the process with exit status 1.
\<close>

definition uncaught :: "gateway \<Rightarrow> gateway" where
  "uncaught st = st\<lparr>exit_status := Some 1\<rparr>"

definition console_log :: "jsstring \<Rightarrow> gateway \<Rightarrow> gateway" where
  "console_log s st = st\<lparr>console := console st @ [(ConsoleLog, s)]\<rparr>"

definition console_error :: "jsstring \<Rightarrow> gateway \<Rightarrow> gateway" where
  "console_error s st = st\<lparr>console := console st @ [(ConsoleError, s)]\<rparr>"

text \<open>\<open>spawn(command, args)\<close> creates a handle; the handle is its index in \<open>children\<close>.\<close>

definition spawn :: "jsstring \<Rightarrow> jsstring list \<Rightarrow> gateway \<Rightarrow> gateway" where
  "spawn c as st =
     st\<lparr>children := children st @ [\<lparr>command = c, args = as, listeners = []\<rparr>]\<rparr>"

text \<open>\<open>emitter.on(event, listener)\<close> on the handle \<open>i\<close>.\<close>

definition on :: "nat \<Rightarrow> hook \<Rightarrow> listener \<Rightarrow> gateway \<Rightarrow> gateway" where
  "on i h l st =
     (if i < length (children st)
      then st\<lparr>children := (children st)
             [i := (children st ! i)\<lparr>listeners := listeners (children st ! i) @ [(h, l)]\<rparr>]\<rparr>
      else st)"

text \<open>\<open>app.use(path, middleware)\<close>; \<open>app.use(middleware)\<close> mounts at \<open>/\<close>.\<close>

definition app_use_at :: "jsstring \<Rightarrow> middleware \<Rightarrow> gateway \<Rightarrow> gateway" where
  "app_use_at p m st = st\<lparr>stack := stack st @ [\<lparr>mount = p, handler = m\<rparr>]\<rparr>"

definition app_use :: "middleware \<Rightarrow> gateway \<Rightarrow> gateway" where
  "app_use m st = app_use_at (lit ''/'') m st"


section \<open>What the program runs on\<close>

text \<open>
  The program is glue between Node.js, Express, \<open>http-proxy-middleware\<close> and the operating
  system. What these decide is a parameter of the model:
  \<^item> \<open>process_env\<close>: the environment of the process, \<open>dirname\<close>: the directory of the
    script (\<open>__dirname\<close>);
  \<^item> \<open>listen_error_to_callback\<close>: whether \<open>app.listen\<close> registers its callback for the
    server's \<open>'error'\<close> event as well. Express 4 hands the callback to Node's
    \<open>server.listen\<close>, which registers it with \<open>once('listening', callback)\<close> only. Express 5
    wraps the callback so that it runs at most once and registers it for both events
    (\<^verbatim>\<open>var done = args[args.length - 1] = once(args[args.length - 1]); server.once('error', done)\<close>),
    so that a bind error is passed to the callback instead of being thrown. The sources
    name no version of Express;
  \<^item> \<open>ephemeral_port\<close>: the port the operating system chooses when it is asked for
    port 0; \<open>listen_other\<close>: what \<open>server.listen\<close> makes of a string that is not a plain
    decimal numeral, by JavaScript's conversion of strings to numbers;
  \<^item> \<open>url_parse\<close>: the path that Node's \<open>url.parse\<close> reads from a request target outside
    the fast path of Express (see \<open>pathname\<close>), \<open>None\<close> when it reads none;
  \<^item> \<open>net\<close>: what becomes of a request sent to the server at a base URL;
  \<^item> \<open>outgoing\<close>: the request that the proxy middleware, created with the given options
    and mounted at the given path, sends upstream for an inbound request;
  \<^item> \<open>page\<close>: the text that the libraries write as the body of a response they
    generate themselves, by status code;
  \<^item> \<open>lookup\<close>: the file system below a root directory; \<open>resolve\<close>: the path below the
    root that the static middleware derives from the path of a URL (percent-decoding and
    normalisation), \<open>None\<close> when it refuses the path (malformed encoding, a path that
    leaves the root, a dot file); \<open>mime\<close>: the content type inferred from a path;
    \<open>conditional\<close>: the answer of the static middleware to a request with a precondition
    or a range, for the file at a path with the given bytes (200, 206, 304, 412 or 416).
\<close>

text \<open>
  A path below the static root names a file with its bytes, a directory, nothing, or
  something that cannot be read (\<open>stat\<close> fails with another error than "not found").
\<close>

datatype node = File "nat list" | Directory | Absent | Unreadable

text \<open>
  A request sent upstream is answered, or the connection fails with an error code, or
  the server accepts it and never answers.
\<close>

datatype failure = ECONNREFUSED | ECONNRESET | ENOTFOUND | ETIMEDOUT | HPE_INVALID | OtherError

datatype upstream = Answer response | Failure failure | Silence

text \<open>
  What \<open>server.listen\<close> makes of its first argument: a port to bind, port 0 (the
  operating system chooses), the name of a pipe, or a value that it rejects with a
  \<open>RangeError\<close>.
\<close>

datatype endpoint = TcpPort nat | AnyPort | PipeName jsstring | BadPort

record world =
  process_env :: "string \<Rightarrow> jsstring option"
  dirname :: jsstring
  listen_error_to_callback :: bool
  ephemeral_port :: nat
  listen_other :: "jsstring \<Rightarrow> endpoint"
  url_parse :: "jsstring \<Rightarrow> jsstring option"
  net :: "jsstring \<Rightarrow> request \<Rightarrow> upstream"
  outgoing :: "proxy_options \<Rightarrow> jsstring \<Rightarrow> request \<Rightarrow> request"
  page :: "nat \<Rightarrow> request \<Rightarrow> nat list"
  lookup :: "jsstring \<Rightarrow> jsstring \<Rightarrow> node"
  resolve :: "jsstring \<Rightarrow> jsstring option"
  mime :: "jsstring \<Rightarrow> jsstring"
  conditional :: "request \<Rightarrow> jsstring \<Rightarrow> nat list \<Rightarrow> response"

text \<open>\<open>process.env.NAME\<close>: the value of the variable, \<open>undefined\<close> when it is not set.\<close>

definition env_lookup :: "world \<Rightarrow> string \<Rightarrow> jsval" where
  "env_lookup w name = (case process_env w name of None \<Rightarrow> Undefined | Some v \<Rightarrow> Str v)"

text \<open>
  The first argument of \<open>server.listen\<close>. A number, or a string that converts to a number
  that is not negative, is a port; it must be a whole number up to 65535, or the call
  throws. A plain decimal numeral converts to its value; what another string converts
  to is the world's \<open>listen_other\<close> (a string that converts to no number, or to a negative
  one, is the name of a pipe). \<open>undefined\<close> and \<open>null\<close> stand for port 0.
\<close>

definition is_digits :: "jsstring \<Rightarrow> bool" where
  "is_digits s \<longleftrightarrow> s \<noteq> [] \<and> list_all (\<lambda>c. 0x30 \<le> c \<and> c \<le> 0x39) s"

definition decimal_value :: "jsstring \<Rightarrow> nat" where
  "decimal_value s = foldl (\<lambda>a c. 10 * a + (c - 0x30)) 0 s"

definition port_of_number :: "int \<Rightarrow> endpoint" where
  "port_of_number n =
     (if n = 0 then AnyPort else if 0 < n \<and> n \<le> 65535 then TcpPort (nat n) else BadPort)"

fun listen_target :: "world \<Rightarrow> jsval \<Rightarrow> endpoint" where
  "listen_target w (Num n) = port_of_number n"
| "listen_target w (Str s) =
     (if is_digits s then port_of_number (int (decimal_value s)) else listen_other w s)"
| "listen_target w Undefined = AnyPort"
| "listen_target w Null = AnyPort"

text \<open>The address of the server once the bind of an endpoint has succeeded.\<close>

fun listening_address :: "world \<Rightarrow> endpoint \<Rightarrow> address option" where
  "listening_address w (TcpPort n) = Some (Port n)"
| "listening_address w AnyPort = Some (Port (ephemeral_port w))"
| "listening_address w (PipeName s) = Some (Pipe s)"
| "listening_address w BadPort = None"

text \<open>
  \<open>app.listen(port, callback)\<close> registers the callback and starts to bind; the callback
  waits for the outcome. When \<open>server.listen\<close> rejects the port it throws after the
  callback is registered; the call is the last statement of the script and nothing
  catches the exception.
\<close>

definition app_listen :: "world \<Rightarrow> jsval \<Rightarrow> gateway \<Rightarrow> gateway" where
  "app_listen w port st =
     (let st1 = st\<lparr>listen_arg := Some port, callback_pending := True,
                   callback_on_error := listen_error_to_callback w\<rparr>
      in if listen_target w port = BadPort then uncaught st1 else st1)"


section \<open>The program: \<open>server.js\<close>, lines 1 to 46\<close>

text \<open>
  The program text of \<open>server.js\<close> ends at line 46; lines 47 to 58 of the file are
  prose about the program and are not embedded.
\<close>

text \<open>Line 8: \<open>const PORT = process.env.PORT || 3000;\<close>\<close>

definition PORT :: "world \<Rightarrow> jsval" where
  "PORT w = js_or (env_lookup w ''PORT'') (Num 3000)"

text \<open>Line 10: \<open>const PYTHON_PORT = 8081;\<close>\<close>

definition PYTHON_PORT :: jsval where
  "PYTHON_PORT = Num 8081"

text \<open>
  Lines 13 to 30, \<open>startPythonServer\<close>: a log line, the spawn of \<open>gunicorn\<close>, and the
  registration of the three listeners on the new handle.
\<close>

definition startPythonServer :: "gateway \<Rightarrow> gateway" where
  "startPythonServer st =
     (let st1 = console_log (lit ''Starting Python Gunicorn server...'') st;
          pythonServer = length (children st1);
          st2 = spawn (lit ''gunicorn'')
                  [lit ''app:app'', lit ''--bind'', lit ''0.0.0.0:'' @ to_string PYTHON_PORT] st1;
          st3 = on pythonServer StdoutData OnStdoutData st2;
          st4 = on pythonServer StderrData OnStderrData st3
      in on pythonServer ProcClose OnClose st4)"

text \<open>
  The bodies of the three listeners (lines 19 to 29). A \<open>'data'\<close> listener receives a
  chunk of the stream, here already decoded by \<open>data.toString()\<close>; the \<open>'close'\<close> listener
  receives the exit code, \<open>null\<close> when the child was ended by a signal. The runtime
  gives a listener no other argument than these, so the last equation is never used.
\<close>

fun call :: "listener \<Rightarrow> signal \<Rightarrow> gateway \<Rightarrow> gateway" where
  "call OnStdoutData (Chunk data) st = console_log (lit ''[Python STDOUT]: '' @ trim data) st"
| "call OnStderrData (Chunk data) st = console_error (lit ''[Python STDERR]: '' @ trim data) st"
| "call OnClose (ExitCode code) st =
     console_log (lit ''Python server process exited with code ''
       @ to_string (case code of None \<Rightarrow> Null | Some c \<Rightarrow> Num c)) st"
| "call _ _ st = st"

text \<open>Lines 42 to 46: the callback given to \<open>app.listen\<close>. It takes no argument.\<close>

definition listen_callback :: "world \<Rightarrow> gateway \<Rightarrow> gateway" where
  "listen_callback w st =
     startPythonServer
       (console_log (lit ''Node.js wrapper server listening on port '' @ to_string (PORT w)) st)"

text \<open>
  The top level of the script: lines 33 to 36 mount the proxy at \<open>/api\<close>, line 39 mounts
  the static middleware, line 42 calls \<open>app.listen\<close>.
\<close>

definition server_js :: "world \<Rightarrow> gateway" where
  "server_js w =
     (let app1 = app_use_at (lit ''/api'')
                   (ProxyMiddleware
                     \<lparr>target = lit ''http://localhost:'' @ to_string PYTHON_PORT,
                      changeOrigin = True\<rparr>) fresh;
          app2 = app_use (ServeStatic (dirname w)) app1
      in app_listen w (PORT w) app2)"

text \<open>
  A program, for the event loop below: what its top level leaves behind, its listen
  callback and the bodies of its listeners.
\<close>

record program =
  toplevel :: "world \<Rightarrow> gateway"
  listening :: "world \<Rightarrow> gateway \<Rightarrow> gateway"
  body_of :: "listener \<Rightarrow> signal \<Rightarrow> gateway \<Rightarrow> gateway"

definition server_js_program :: program where
  "server_js_program =
     \<lparr>toplevel = server_js, listening = listen_callback, body_of = call\<rparr>"

section \<open>The event loop\<close>

text \<open>
  What the runtime delivers to the process after its top level has run: the outcome of
  the bind (\<open>'listening'\<close> or \<open>'error'\<close> on the server), and what a child process handle
  emits: a chunk on either output stream, \<open>'close'\<close> with the exit code, or \<open>'error'\<close>
  when the command could not be started.
\<close>

datatype event =
    Listening
  | ListenError
  | Stdout nat jsstring
  | Stderr nat jsstring
  | Close nat "int option"
  | ChildError nat

text \<open>
  \<open>emit\<close>: the listeners registered on handle \<open>i\<close> for the hook run in the order of their
  registration.
\<close>

definition emit :: "program \<Rightarrow> nat \<Rightarrow> hook \<Rightarrow> signal \<Rightarrow> gateway \<Rightarrow> gateway" where
  "emit P i h sg st =
     (if i < length (children st)
      then (let ls = filter (\<lambda>hl. fst hl = h) (listeners (children st ! i))
            in if ls = [] \<and> h = ProcError then uncaught st
               else fold (\<lambda>hl. body_of P (snd hl) sg) ls st)
      else st)"

text \<open>The listen callback runs at most once.\<close>

definition run_callback :: "program \<Rightarrow> world \<Rightarrow> gateway \<Rightarrow> gateway" where
  "run_callback P w st =
     (if callback_pending st then listening P w (st\<lparr>callback_pending := False\<rparr>) else st)"

text \<open>
  One event. A process that has exited takes no event. \<open>'listening'\<close> comes when the bind
  of the endpoint given to \<open>app.listen\<close> has succeeded: the server has its address, and
  the callback runs. \<open>'error'\<close> on the server runs the callback when it is registered for
  that event (and removes that registration, made with \<open>once\<close>), and is an uncaught
  exception otherwise.
\<close>

definition step :: "program \<Rightarrow> world \<Rightarrow> gateway \<Rightarrow> event \<Rightarrow> gateway" where
  "step P w st ev =
     (if exit_status st \<noteq> None then st
      else case ev of
        Listening \<Rightarrow>
          (case listen_arg st of
             None \<Rightarrow> st
           | Some port \<Rightarrow>
               run_callback P w (st\<lparr>address := listening_address w (listen_target w port)\<rparr>))
      | ListenError \<Rightarrow>
          (if callback_on_error st then run_callback P w (st\<lparr>callback_on_error := False\<rparr>)
           else uncaught st)
      | Stdout i d \<Rightarrow> emit P i StdoutData (Chunk d) st
      | Stderr i d \<Rightarrow> emit P i StderrData (Chunk d) st
      | Close i c \<Rightarrow> emit P i ProcClose (ExitCode c) st
      | ChildError i \<Rightarrow> emit P i ProcError SpawnFailure st)"

definition run :: "program \<Rightarrow> world \<Rightarrow> event list \<Rightarrow> gateway" where
  "run P w evs = foldl (step P w) (toplevel P w) evs"


section \<open>Request dispatch\<close>

text \<open>
  Express and the static middleware read the path of a request from its target with
  \<open>parseurl\<close>: for a target that starts with \<open>/\<close> and holds no \<open>#\<close> and no white space
  (\<open>fast_path\<close>), the path is the target up to the first \<open>?\<close>; for any other target
  \<open>parseurl\<close> falls back to \<open>url.parse\<close>, which is the world's \<open>url_parse\<close>.
\<close>

definition fast_path :: "jsstring \<Rightarrow> bool" where
  "fast_path u \<longleftrightarrow>
     (case u of [] \<Rightarrow> False | c # cs \<Rightarrow> c = 0x2F)
     \<and> set u \<inter> {0x09, 0x0A, 0x0C, 0x0D, 0x20, 0x23, 0xA0, 0xFEFF} = {}"

definition pathname :: "world \<Rightarrow> jsstring \<Rightarrow> jsstring option" where
  "pathname w u = (if fast_path u then Some (takeWhile (\<lambda>c. c \<noteq> 0x3F) u) else url_parse w u)"

text \<open>
  A middleware mounted at a path (one without a trailing slash and without pattern
  characters) takes the requests whose path starts with the mount path, compared without
  regard to the case of ASCII letters, and goes on with \<open>/\<close> or ends there. A middleware
  mounted at \<open>/\<close> takes every request.
\<close>

definition lower :: "nat \<Rightarrow> nat" where
  "lower c = (if 0x41 \<le> c \<and> c \<le> 0x5A then c + 0x20 else c)"

definition mount_match :: "jsstring \<Rightarrow> jsstring \<Rightarrow> bool" where
  "mount_match m p \<longleftrightarrow>
     m = lit ''/''
     \<or> (map lower (take (length m) p) = map lower m
        \<and> (case drop (length m) p of [] \<Rightarrow> True | c # cs \<Rightarrow> c = 0x2F))"

text \<open>
  What a middleware does with a request: it answers, it calls \<open>next()\<close>, it calls
  \<open>next(err)\<close> with an error that carries a status code, or it does neither and the
  request stays without an answer.
\<close>

datatype outcome = Done response | Next | Throw nat | NoAnswer

text \<open>
  The proxy middleware sends the rewritten request to its target, once, and relays the
  answer. When the connection fails, the error handler of \<open>http-proxy-middleware\<close> answers
  with a status chosen by the error code (502 for a malformed answer, 504 for
  \<open>ECONNREFUSED\<close>, \<open>ECONNRESET\<close>, \<open>ENOTFOUND\<close> and \<open>ETIMEDOUT\<close>, 500 otherwise) and a text of
  its own. Lines 33 to 36 set no timeout: while the target is silent, the request has
  no answer. With the default filter the middleware takes every request it is given
  and never calls \<open>next\<close>.
\<close>

fun failure_status :: "failure \<Rightarrow> nat" where
  "failure_status HPE_INVALID = 502"
| "failure_status ECONNREFUSED = 504"
| "failure_status ECONNRESET = 504"
| "failure_status ENOTFOUND = 504"
| "failure_status ETIMEDOUT = 504"
| "failure_status OtherError = 500"

definition proxy_middleware :: "world \<Rightarrow> proxy_options \<Rightarrow> jsstring \<Rightarrow> request \<Rightarrow> outcome" where
  "proxy_middleware w opts m req =
     (case net w (target opts) (outgoing w opts m req) of
        Answer r \<Rightarrow> Done r
      | Failure f \<Rightarrow>
          Done \<lparr>status = failure_status f, content_type = None,
                payload = page w (failure_status f) req\<rparr>
      | Silence \<Rightarrow> NoAnswer)"

text \<open>
  The static middleware with its default options, mounted at \<open>/\<close>, given the path of the
  request. It takes \<open>GET\<close> and \<open>HEAD\<close> only. A path with a trailing slash is answered
  with the \<open>index.html\<close> of that directory; another path with the file it names, or with
  a redirect to the path with a slash added when it names a directory. A file is sent
  with status 200, its inferred content type and its bytes, unless the request carries
  a precondition or a range (a non-empty \<open>If-Match\<close>, \<open>If-Unmodified-Since\<close>,
  \<open>If-None-Match\<close>, \<open>If-Modified-Since\<close> or \<open>Range\<close> header): then the answer is the
  world's \<open>conditional\<close>. What cannot be read is an error with status 500. In every other
  case the middleware calls \<open>next()\<close>.
\<close>

definition preconditioned :: "request \<Rightarrow> bool" where
  "preconditioned req \<longleftrightarrow>
     list_ex (\<lambda>name. case headers req (lit name) of None \<Rightarrow> False | Some v \<Rightarrow> v \<noteq> [])
       [''if-match'', ''if-unmodified-since'', ''if-none-match'', ''if-modified-since'',
        ''range'']"

definition ends_with_slash :: "jsstring \<Rightarrow> bool" where
  "ends_with_slash p \<longleftrightarrow> p \<noteq> [] \<and> last p = 0x2F"

definition index_of :: "jsstring \<Rightarrow> jsstring" where
  "index_of q = (if ends_with_slash q then q @ lit ''index.html'' else q @ lit ''/index.html'')"

definition send_file :: "world \<Rightarrow> request \<Rightarrow> jsstring \<Rightarrow> nat list \<Rightarrow> response" where
  "send_file w req q bytes =
     (if preconditioned req then conditional w req q bytes
      else \<lparr>status = 200, content_type = Some (mime w q),
            payload = (if verb req = lit ''HEAD'' then [] else bytes)\<rparr>)"

definition serve_static :: "world \<Rightarrow> jsstring \<Rightarrow> request \<Rightarrow> jsstring \<Rightarrow> outcome" where
  "serve_static w root req p =
     (if verb req \<noteq> lit ''GET'' \<and> verb req \<noteq> lit ''HEAD'' then Next
      else case resolve w p of
        None \<Rightarrow> Next
      | Some q \<Rightarrow>
          if ends_with_slash p
          then (case lookup w root (index_of q) of
                  File bytes \<Rightarrow> Done (send_file w req (index_of q) bytes)
                | Directory \<Rightarrow> Next
                | Absent \<Rightarrow> Next
                | Unreadable \<Rightarrow> Throw 500)
          else (case lookup w root q of
                  File bytes \<Rightarrow> Done (send_file w req q bytes)
                | Directory \<Rightarrow>
                    Done \<lparr>status = 301, content_type = Some (lit ''text/html; charset=UTF-8''),
                          payload = page w 301 req\<rparr>
                | Absent \<Rightarrow> Next
                | Unreadable \<Rightarrow> Throw 500))"

definition invoke :: "world \<Rightarrow> layer \<Rightarrow> request \<Rightarrow> jsstring \<Rightarrow> outcome" where
  "invoke w l req p =
     (case handler l of
        ProxyMiddleware opts \<Rightarrow> proxy_middleware w opts (mount l) req
      | ServeStatic root \<Rightarrow> serve_static w root req p)"

text \<open>
  The answer of Express itself, when no layer answers (404) or a layer has passed an
  error (its status code): the program installs no error handler.
\<close>

definition final_answer :: "world \<Rightarrow> nat \<Rightarrow> request \<Rightarrow> response" where
  "final_answer w code req =
     \<lparr>status = code, content_type = Some (lit ''text/html; charset=utf-8''),
      payload = page w code req\<rparr>"

text \<open>
  Express offers the request to the layers in the order of their registration; a layer
  that calls \<open>next()\<close> passes it on. The result is the response, \<open>None\<close> while there is
  none, and the middlewares that were invoked, in order. A request whose target gives
  no path is answered 404 without any layer.
\<close>

fun route :: "world \<Rightarrow> layer list \<Rightarrow> request \<Rightarrow> jsstring
    \<Rightarrow> response option \<times> middleware list" where
  "route w [] req p = (Some (final_answer w 404 req), [])"
| "route w (l # ls) req p =
     (if mount_match (mount l) p
      then (case invoke w l req p of
              Done r \<Rightarrow> (Some r, [handler l])
            | Next \<Rightarrow> (fst (route w ls req p), handler l # snd (route w ls req p))
            | Throw code \<Rightarrow> (Some (final_answer w code req), [handler l])
            | NoAnswer \<Rightarrow> (None, [handler l]))
      else route w ls req p)"

definition dispatch :: "world \<Rightarrow> layer list \<Rightarrow> request
    \<Rightarrow> response option \<times> middleware list" where
  "dispatch w ls req =
     (case pathname w (url req) of
        None \<Rightarrow> (Some (final_answer w 404 req), [])
      | Some p \<Rightarrow> route w ls req p)"

text \<open>The application of a program answers a request with the stack its top level built.\<close>

definition app_handle :: "program \<Rightarrow> world \<Rightarrow> request
    \<Rightarrow> response option \<times> middleware list" where
  "app_handle P w req = dispatch w (stack (toplevel P w)) req"


section \<open>The program: \<open>unnamed/part_000\<close>, lines 1 to 46\<close>

text \<open>
  The second source file, embedded on its own, line by line as the first: line 8, line
  10, lines 13 to 30, the listener bodies of lines 19 to 29, the callback of lines 42 to
  46, and the top level (lines 33 to 36, 39 and 42).
\<close>

definition part_000_PORT :: "world \<Rightarrow> jsval" where
  "part_000_PORT w = js_or (env_lookup w ''PORT'') (Num 3000)"

definition part_000_PYTHON_PORT :: jsval where
  "part_000_PYTHON_PORT = Num 8081"

definition part_000_startPythonServer :: "gateway \<Rightarrow> gateway" where
  "part_000_startPythonServer st =
     (let st1 = console_log (lit ''Starting Python Gunicorn server...'') st;
          pythonServer = length (children st1);
          st2 = spawn (lit ''gunicorn'')
                  [lit ''app:app'', lit ''--bind'',
                   lit ''0.0.0.0:'' @ to_string part_000_PYTHON_PORT] st1;
          st3 = on pythonServer StdoutData OnStdoutData st2;
          st4 = on pythonServer StderrData OnStderrData st3
      in on pythonServer ProcClose OnClose st4)"

fun part_000_call :: "listener \<Rightarrow> signal \<Rightarrow> gateway \<Rightarrow> gateway" where
  "part_000_call OnStdoutData (Chunk data) st =
     console_log (lit ''[Python STDOUT]: '' @ trim data) st"
| "part_000_call OnStderrData (Chunk data) st =
     console_error (lit ''[Python STDERR]: '' @ trim data) st"
| "part_000_call OnClose (ExitCode code) st =
     console_log (lit ''Python server process exited with code ''
       @ to_string (case code of None \<Rightarrow> Null | Some c \<Rightarrow> Num c)) st"
| "part_000_call _ _ st = st"

definition part_000_listen_callback :: "world \<Rightarrow> gateway \<Rightarrow> gateway" where
  "part_000_listen_callback w st =
     part_000_startPythonServer
       (console_log
         (lit ''Node.js wrapper server listening on port '' @ to_string (part_000_PORT w)) st)"

definition part_000 :: "world \<Rightarrow> gateway" where
  "part_000 w =
     (let app1 = app_use_at (lit ''/api'')
                   (ProxyMiddleware
                     \<lparr>target = lit ''http://localhost:'' @ to_string part_000_PYTHON_PORT,
                      changeOrigin = True\<rparr>) fresh;
          app2 = app_use (ServeStatic (dirname w)) app1
      in app_listen w (part_000_PORT w) app2)"

definition part_000_program :: program where
  "part_000_program =
     \<lparr>toplevel = part_000, listening = part_000_listen_callback, body_of = part_000_call\<rparr>"


section \<open>Example worlds\<close>

text \<open>
  A deployment with \<open>PORT=8080\<close>, a static root that holds \<open>index.html\<close> and \<open>api.html\<close>,
  a backend that answers every request with 200, and a proxy library that rewrites the
  \<open>Host\<close> header only. \<open>express4\<close> and \<open>express5\<close> differ in the behaviour of
  \<open>app.listen\<close>; \<open>backend_down\<close> has nothing listening on the backend port; \<open>with_port\<close>
  sets \<open>PORT\<close>.
\<close>

definition example_files :: "jsstring \<Rightarrow> jsstring \<Rightarrow> node" where
  "example_files root p =
     (if root = lit ''/srv/app'' \<and> p = lit ''/index.html'' then File (lit ''<html>home</html>'')
      else if root = lit ''/srv/app'' \<and> p = lit ''/api.html'' then File (lit ''<html>api</html>'')
      else if root = lit ''/srv/app'' \<and> p = lit ''/'' then Directory
      else Absent)"

definition express4 :: world where
  "express4 =
     \<lparr>process_env = (\<lambda>name. if name = ''PORT'' then Some (lit ''8080'') else None),
      dirname = lit ''/srv/app'',
      listen_error_to_callback = False,
      ephemeral_port = 49152,
      listen_other = PipeName,
      url_parse = (\<lambda>u. None),
      net = (\<lambda>base r. if base = lit ''http://localhost:8081''
                        then Answer \<lparr>status = 200, content_type = Some (lit ''application/json''),
                                     payload = lit ''{}''\<rparr>
                        else Failure ENOTFOUND),
      outgoing = (\<lambda>opts m r. r\<lparr>host := lit ''localhost:8081''\<rparr>),
      page = (\<lambda>code r. lit ''error''),
      lookup = example_files,
      resolve = Some,
      mime = (\<lambda>p. lit ''text/html; charset=UTF-8''),
      conditional = (\<lambda>r p bytes. \<lparr>status = 304, content_type = None, payload = []\<rparr>)\<rparr>"

definition express5 :: world where
  "express5 = express4\<lparr>listen_error_to_callback := True\<rparr>"

definition backend_down :: world where
  "backend_down = express4\<lparr>net := (\<lambda>base r. Failure ECONNREFUSED)\<rparr>"

definition with_port :: "string \<Rightarrow> world" where
  "with_port v = express4\<lparr>process_env := (process_env express4)(''PORT'' := Some (lit v))\<rparr>"

definition get :: "string \<Rightarrow> request" where
  "get u = \<lparr>verb = lit ''GET'', url = lit u, host = lit ''example.org'',
            headers = Map.empty, body = []\<rparr>"

text \<open>The handle that \<open>startPythonServer\<close> creates.\<close>

abbreviation gunicorn :: child where
  "gunicorn \<equiv> \<lparr>command = lit ''gunicorn'',
     args = [lit ''app:app'', lit ''--bind'', lit ''0.0.0.0:8081''],
     listeners = [(StdoutData, OnStdoutData), (StderrData, OnStderrData), (ProcClose, OnClose)]\<rparr>"


section \<open>Auxiliary facts\<close>

lemma lit_simps [simp]: "lit [] = []" "lit (c # cs) = of_char c # lit cs"
  by (simp_all add: lit_def)

lemma number_8081: "number_to_string 8081 = lit ''8081''"
  by (simp add: number_to_string.simps [of 8081] number_to_string.simps [of 808]
      number_to_string.simps [of 80] number_to_string.simps [of 8] digit_def)

lemma number_3000: "number_to_string 3000 = lit ''3000''"
  by (simp add: number_to_string.simps [of 3000] number_to_string.simps [of 300]
      number_to_string.simps [of 30] number_to_string.simps [of 3] digit_def)

lemma python_port_string: "to_string PYTHON_PORT = lit ''8081''"
  by (simp add: PYTHON_PORT_def int_to_string_def number_8081)


lemma console_log_fields [simp]:
  "stack (console_log s st) = stack st"
  "listen_arg (console_log s st) = listen_arg st"
  "callback_pending (console_log s st) = callback_pending st"
  "callback_on_error (console_log s st) = callback_on_error st"
  "address (console_log s st) = address st"
  "children (console_log s st) = children st"
  "exit_status (console_log s st) = exit_status st"
  "console (console_log s st) = console st @ [(ConsoleLog, s)]"
  by (simp_all add: console_log_def)

lemma console_error_fields [simp]:
  "stack (console_error s st) = stack st"
  "listen_arg (console_error s st) = listen_arg st"
  "callback_pending (console_error s st) = callback_pending st"
  "callback_on_error (console_error s st) = callback_on_error st"
  "address (console_error s st) = address st"
  "children (console_error s st) = children st"
  "exit_status (console_error s st) = exit_status st"
  "console (console_error s st) = console st @ [(ConsoleError, s)]"
  by (simp_all add: console_error_def)

lemma startPythonServer_fields [simp]:
  "stack (startPythonServer st) = stack st"
  "listen_arg (startPythonServer st) = listen_arg st"
  "callback_pending (startPythonServer st) = callback_pending st"
  "callback_on_error (startPythonServer st) = callback_on_error st"
  "address (startPythonServer st) = address st"
  "exit_status (startPythonServer st) = exit_status st"
  "console (startPythonServer st) =
     console st @ [(ConsoleLog, lit ''Starting Python Gunicorn server...'')]"
  by (simp_all add: startPythonServer_def Let_def spawn_def on_def)

lemma startPythonServer_children [simp]:
  "children (startPythonServer st) = children st @ [gunicorn]"
  by (simp add: startPythonServer_def Let_def spawn_def on_def
      python_port_string nth_append)


lemma call_fields [simp]:
  "stack (call l sg st) = stack st"
  "listen_arg (call l sg st) = listen_arg st"
  "callback_pending (call l sg st) = callback_pending st"
  "callback_on_error (call l sg st) = callback_on_error st"
  "address (call l sg st) = address st"
  "children (call l sg st) = children st"
  "exit_status (call l sg st) = exit_status st"
  by (cases l; cases sg; simp)+

lemma fold_call_fields [simp]:
  "stack (fold (\<lambda>hl. call (snd hl) sg) ls st) = stack st"
  "listen_arg (fold (\<lambda>hl. call (snd hl) sg) ls st) = listen_arg st"
  "callback_pending (fold (\<lambda>hl. call (snd hl) sg) ls st) = callback_pending st"
  "callback_on_error (fold (\<lambda>hl. call (snd hl) sg) ls st) = callback_on_error st"
  "address (fold (\<lambda>hl. call (snd hl) sg) ls st) = address st"
  "children (fold (\<lambda>hl. call (snd hl) sg) ls st) = children st"
  "exit_status (fold (\<lambda>hl. call (snd hl) sg) ls st) = exit_status st"
  by (induction ls arbitrary: st; simp)+

lemma uncaught_fields [simp]:
  "stack (uncaught st) = stack st"
  "listen_arg (uncaught st) = listen_arg st"
  "callback_pending (uncaught st) = callback_pending st"
  "callback_on_error (uncaught st) = callback_on_error st"
  "address (uncaught st) = address st"
  "children (uncaught st) = children st"
  "console (uncaught st) = console st"
  "exit_status (uncaught st) = Some 1"
  by (simp_all add: uncaught_def)

lemma emit_fields [simp]:
  "stack (emit server_js_program i h sg st) = stack st"
  "listen_arg (emit server_js_program i h sg st) = listen_arg st"
  "callback_pending (emit server_js_program i h sg st) = callback_pending st"
  "callback_on_error (emit server_js_program i h sg st) = callback_on_error st"
  "address (emit server_js_program i h sg st) = address st"
  "children (emit server_js_program i h sg st) = children st"
  by (simp_all add: emit_def server_js_program_def Let_def)

lemma listen_callback_fields [simp]:
  "stack (listen_callback w st) = stack st"
  "listen_arg (listen_callback w st) = listen_arg st"
  "callback_pending (listen_callback w st) = callback_pending st"
  "callback_on_error (listen_callback w st) = callback_on_error st"
  "address (listen_callback w st) = address st"
  "exit_status (listen_callback w st) = exit_status st"
  "children (listen_callback w st) = children st @ [gunicorn]"
  "console (listen_callback w st) =
     console st @ [(ConsoleLog, lit ''Node.js wrapper server listening on port '' @ to_string (PORT w)),
                   (ConsoleLog, lit ''Starting Python Gunicorn server...'')]"
  by (simp_all add: listen_callback_def)

lemma run_callback_fields [simp]:
  "stack (run_callback server_js_program w st) = stack st"
  "listen_arg (run_callback server_js_program w st) = listen_arg st"
  "callback_pending (run_callback server_js_program w st) = False"
  "callback_on_error (run_callback server_js_program w st) = callback_on_error st"
  "address (run_callback server_js_program w st) = address st"
  "exit_status (run_callback server_js_program w st) = exit_status st"
  "children (run_callback server_js_program w st) =
     (if callback_pending st then children st @ [gunicorn] else children st)"
  "console (run_callback server_js_program w st) =
     (if callback_pending st
      then console st @ [(ConsoleLog, lit ''Node.js wrapper server listening on port '' @ to_string (PORT w)),
                         (ConsoleLog, lit ''Starting Python Gunicorn server...'')]
      else console st)"
  by (simp_all add: run_callback_def server_js_program_def)

lemma step_stack [simp]: "stack (step server_js_program w st ev) = stack st"
  by (cases ev) (simp_all add: step_def split: option.splits)

lemma step_listen_arg [simp]: "listen_arg (step server_js_program w st ev) = listen_arg st"
  by (cases ev) (simp_all add: step_def split: option.splits)

lemma run_snoc: "run P w (evs @ [ev]) = step P w (run P w evs) ev"
  by (simp add: run_def)

lemma run_Nil [simp]: "run P w [] = toplevel P w"
  by (simp add: run_def)

lemma toplevel_fields [simp]:
  "stack (server_js w) =
     [\<lparr>mount = lit ''/api'',
       handler = ProxyMiddleware \<lparr>target = lit ''http://localhost:8081'', changeOrigin = True\<rparr>\<rparr>,
      \<lparr>mount = lit ''/'', handler = ServeStatic (dirname w)\<rparr>]"
  "listen_arg (server_js w) = Some (PORT w)"
  "callback_pending (server_js w) = True"
  "callback_on_error (server_js w) = listen_error_to_callback w"
  "address (server_js w) = None"
  "children (server_js w) = []"
  "console (server_js w) = []"
  "exit_status (server_js w) = (if listen_target w (PORT w) = BadPort then Some 1 else None)"
  by (simp_all add: server_js_def Let_def app_listen_def app_use_def app_use_at_def fresh_def
      python_port_string)

lemma program_fields [simp]:
  "toplevel server_js_program = server_js"
  "listening server_js_program = listen_callback"
  "body_of server_js_program = call"
  by (simp_all add: server_js_program_def)

lemma run_listen_arg: "listen_arg (run server_js_program w evs) = Some (PORT w)"
  by (induction evs rule: rev_induct) (simp_all add: run_snoc)

lemma run_stack: "stack (run server_js_program w evs) = stack (server_js w)"
  by (induction evs rule: rev_induct) (simp_all add: run_snoc)

lemma PORT_cases:
  "PORT w = (case process_env w ''PORT'' of None \<Rightarrow> Num 3000
             | Some v \<Rightarrow> if v = [] then Num 3000 else Str v)"
  by (simp add: PORT_def js_or_def env_lookup_def split: option.splits)

lemma run_children:
  "children (run server_js_program w evs) =
     (if callback_pending (run server_js_program w evs) then [] else [gunicorn])"
proof (induction evs rule: rev_induct)
  case Nil
  show ?case by simp
next
  case (snoc ev evs)
  then show ?case
    by (cases ev) (simp_all add: run_snoc step_def run_listen_arg)
qed




lemma exited_stays: "exit_status st \<noteq> None \<Longrightarrow> foldl (step P w) st evs = st"
  by (induction evs) (simp_all add: step_def)

lemma rejected_run:
  assumes "listen_target w (PORT w) = BadPort"
  shows "run server_js_program w evs = server_js w"
  using assms by (simp add: run_def exited_stays)

lemma express4_target [simp]:
  "listen_target express4 (PORT express4) = TcpPort 8080"
  "listen_target express5 (PORT express5) = TcpPort 8080"
  "listen_target backend_down (PORT backend_down) = TcpPort 8080"
  by (simp_all add: PORT_cases express4_def express5_def backend_down_def is_digits_def
      decimal_value_def port_of_number_def)

section \<open>The public port\<close>











lemma with_port_env [simp]:
  "process_env (with_port v) ''PORT'' = Some (lit v)"
  "listen_error_to_callback (with_port v) = False"
  "ephemeral_port (with_port v) = 49152"
  by (simp_all add: with_port_def express4_def)




section \<open>The backend command\<close>

lemma step_callback_pending:
  "callback_pending (step server_js_program w st ev) \<Longrightarrow> callback_pending st"
  by (cases ev) (simp_all add: step_def split: if_splits option.splits)

lemma foldl_callback_pending:
  "callback_pending (foldl (step server_js_program w) st evs) \<Longrightarrow> callback_pending st"
  by (induction evs arbitrary: st) (auto dest: step_callback_pending)

lemma run_append: "run P w (evs @ later) = foldl (step P w) (run P w evs) later"
  by (simp add: run_def)

lemma handle_stays:
  assumes "children (run server_js_program w evs) \<noteq> []"
  shows "children (run server_js_program w (evs @ later)) = children (run server_js_program w evs)"
proof -
  have "\<not> callback_pending (run server_js_program w evs)"
    using assms by (simp add: run_children split: if_splits)
  then have "\<not> callback_pending (run server_js_program w (evs @ later))"
    unfolding run_append by (auto dest: foldl_callback_pending)
  then show ?thesis
    using assms by (simp add: run_children split: if_splits)
qed







section \<open>The spawn of the backend\<close>

lemma accepted_address:
  "e \<noteq> BadPort \<Longrightarrow> listening_address w e \<noteq> None"
  by (cases e) simp_all

lemma bound_not_pending:
  "bound (run server_js_program w evs) \<Longrightarrow> \<not> callback_pending (run server_js_program w evs)"
proof (induction evs rule: rev_induct)
  case Nil
  then show ?case by (simp add: bound_def)
next
  case (snoc ev evs)
  then show ?case
    by (cases ev) (auto simp: run_snoc step_def bound_def run_listen_arg split: if_splits)
qed

lemma run_express4:
  assumes "\<not> listen_error_to_callback w"
  shows "\<not> callback_on_error (run server_js_program w evs)
       \<and> (\<not> callback_pending (run server_js_program w evs) \<longrightarrow> bound (run server_js_program w evs))"
proof (cases "listen_target w (PORT w) = BadPort")
  case True
  then show ?thesis
    using assms by (simp add: rejected_run)
next
  case False
  then have ok: "listening_address w (listen_target w (PORT w)) \<noteq> None"
    by (rule accepted_address)
  show ?thesis
  proof (induction evs rule: rev_induct)
    case Nil
    show ?case using assms by simp
  next
    case (snoc ev evs)
    then show ?case
      using ok by (cases ev) (auto simp: run_snoc step_def bound_def run_listen_arg)
  qed
qed

text \<open>
  In every world the process holds at most one child process handle, a handle once
  created stays the only one, and a bound socket implies that the backend was spawned.
  With an \<open>app.listen\<close> that registers the callback for \<open>'listening'\<close> only (Express 4),
  the backend is spawned only when the socket is bound.
\<close>

lemma backend_spawned_at_most_once:
  "length (children (run server_js_program w evs)) \<le> 1
   \<and> (children (run server_js_program w evs) \<noteq> [] \<longrightarrow>
        children (run server_js_program w (evs @ later)) = children (run server_js_program w evs))
   \<and> (bound (run server_js_program w evs) \<longrightarrow> children (run server_js_program w evs) = [gunicorn])
   \<and> (\<not> listen_error_to_callback w \<longrightarrow>
        children (run server_js_program w evs) \<noteq> [] \<longrightarrow> bound (run server_js_program w evs))"
  using run_express4 [of w evs] handle_stays [of w evs later] bound_not_pending [of w evs]
  by (simp add: run_children)

text \<open>
  C7. With an \<open>app.listen\<close> that also hands a bind error to its callback (Express 5), a
  failed bind runs the callback of lines 42 to 46, which takes no argument: the backend
  is spawned although no socket was ever bound, against the comment of line 44 (the
  Python server is started after the Node server has started).
\<close>

theorem express5_spawns_without_bind:
  "listen_error_to_callback express5
   \<and> children (run server_js_program express5 [ListenError]) = [gunicorn]
   \<and> \<not> bound (run server_js_program express5 [ListenError])
   \<and> exit_status (run server_js_program express5 [ListenError]) = None"
  by (simp add: run_def step_def bound_def) (simp add: express5_def)


section \<open>A failed bind\<close>

text \<open>
  With an \<open>app.listen\<close> that registers the callback for \<open>'listening'\<close> only (Express 4), a
  failed bind is an \<open>'error'\<close> event without a listener: the process ends with exit status
  1, and whatever is delivered afterwards, the socket is never bound and no child was
  spawned.
\<close>

lemma bind_failure_is_fatal:
  assumes "\<not> listen_error_to_callback w"
  shows "exit_status (run server_js_program w (ListenError # evs)) = Some 1
       \<and> children (run server_js_program w (ListenError # evs)) = []
       \<and> \<not> bound (run server_js_program w (ListenError # evs))"
proof -
  have first: "run server_js_program w [ListenError] = uncaught (server_js w)"
    using assms by (simp add: run_def step_def uncaught_def)
  have "run server_js_program w (ListenError # evs) = uncaught (server_js w)"
    using first exited_stays [of "uncaught (server_js w)" server_js_program w evs]
    by (simp add: run_def)
  then show ?thesis by (simp add: bound_def)
qed

text \<open>
  C3. With an \<open>app.listen\<close> that also hands a bind error to its callback (Express 5), the
  process does not end when the port is in use: the callback of lines 42 to 46 ignores
  the error, logs that the server listens and spawns the backend.
\<close>

theorem express5_survives_failed_bind:
  "listen_error_to_callback express5
   \<and> exit_status (run server_js_program express5 [ListenError]) = None
   \<and> map command (children (run server_js_program express5 [ListenError])) = [lit ''gunicorn'']
   \<and> console (run server_js_program express5 [ListenError]) =
        [(ConsoleLog, lit ''Node.js wrapper server listening on port 8080''),
         (ConsoleLog, lit ''Starting Python Gunicorn server...'')]"
  by (simp add: run_def step_def) (simp add: express5_def express4_def PORT_cases)

section \<open>The observers of the backend\<close>

lemma trim_decomposition:
  "\<exists>a b. d = a @ trim d @ b \<and> list_all is_white_space a \<and> list_all is_white_space b"
proof -
  define a where "a = takeWhile is_white_space d"
  define r where "r = dropWhile is_white_space d"
  define b where "b = rev (takeWhile is_white_space (rev r))"
  have "rev (takeWhile is_white_space (rev r) @ dropWhile is_white_space (rev r)) = rev (rev r)"
    by (simp only: takeWhile_dropWhile_id)
  then have "rev (dropWhile is_white_space (rev r)) @ rev (takeWhile is_white_space (rev r)) = r"
    by (simp only: rev_append rev_rev_ident)
  then have r: "r = trim d @ b"
    by (simp only: trim_def b_def r_def)
  have d: "d = a @ r"
    by (simp add: a_def r_def)
  have wa: "list_all is_white_space a"
    unfolding a_def list_all_iff by (auto dest: set_takeWhileD)
  have wb: "list_all is_white_space b"
    unfolding b_def list_all_iff by (auto dest: set_takeWhileD)
  from d r wa wb show ?thesis by blast
qed

lemma trim_ends:
  assumes "trim d \<noteq> []"
  shows "\<not> is_white_space (hd (trim d)) \<and> \<not> is_white_space (last (trim d))"
proof -
  define r where "r = dropWhile is_white_space d"
  have t: "trim d = rev (dropWhile is_white_space (rev r))"
    by (simp add: trim_def r_def)
  from assms t have ne: "dropWhile is_white_space (rev r) \<noteq> []" by simp
  then have "\<not> is_white_space (hd (dropWhile is_white_space (rev r)))"
    by (rule hd_dropWhile)
  then have l: "\<not> is_white_space (last (trim d))"
    using ne by (simp add: t last_rev)
  from ne have rne: "r \<noteq> []" by auto
  then have "\<not> is_white_space (hd r)"
    unfolding r_def by (rule hd_dropWhile)
  moreover have "rev (takeWhile is_white_space (rev r) @ dropWhile is_white_space (rev r))
      = rev (rev r)"
    by (simp only: takeWhile_dropWhile_id)
  then have "rev (dropWhile is_white_space (rev r)) @ rev (takeWhile is_white_space (rev r)) = r"
    by (simp only: rev_append rev_rev_ident)
  then have "r = trim d @ rev (takeWhile is_white_space (rev r))"
    by (simp only: t)
  then have "hd r = hd (trim d)"
    using assms by (metis hd_append2)
  ultimately show ?thesis using l by simp
qed

lemma spawned_state:
  assumes "children (run server_js_program w evs) \<noteq> []"
  shows "children (run server_js_program w evs) = [gunicorn]"
  using assms by (simp add: run_children split: if_splits)

lemma step_stdout:
  assumes "children st = [gunicorn]" and "exit_status st = None"
  shows "step server_js_program w st (Stdout 0 d)
           = st\<lparr>console := console st @ [(ConsoleLog, lit ''[Python STDOUT]: '' @ trim d)]\<rparr>"
  using assms by (simp add: step_def emit_def console_log_def)

lemma step_stderr:
  assumes "children st = [gunicorn]" and "exit_status st = None"
  shows "step server_js_program w st (Stderr 0 d)
           = st\<lparr>console := console st @ [(ConsoleError, lit ''[Python STDERR]: '' @ trim d)]\<rparr>"
  using assms by (simp add: step_def emit_def console_error_def)

lemma step_close:
  assumes "children st = [gunicorn]" and "exit_status st = None"
  shows "step server_js_program w st (Close 0 code)
           = st\<lparr>console := console st @
                [(ConsoleLog, lit ''Python server process exited with code ''
                    @ (case code of None \<Rightarrow> lit ''null'' | Some c \<Rightarrow> int_to_string c))]\<rparr>"
  using assms by (simp add: step_def emit_def console_log_def split: option.splits)


text \<open>
  C8, amended. The spawned child carries exactly three listeners. In a running gateway,
  every chunk of the child's standard output adds one \<open>console.log\<close> entry, the prefix
  \<open>[Python STDOUT]: \<close> followed by the text of the chunk with the white space and line
  breaks removed from both of its ends and nothing else changed (line breaks inside the
  chunk stay, and the lines after the first carry no prefix); every chunk of its
  standard error adds one \<open>console.error\<close> entry in the same way; and \<open>'close'\<close> adds one
  \<open>console.log\<close> entry with the exit code, or \<open>null\<close> when there is none. Nothing else
  of the state changes.
\<close>

theorem backend_output_relayed_by_chunk:
  assumes "st = run server_js_program w evs"
    and "children st \<noteq> []"
    and "exit_status st = None"
  shows "map listeners (children st)
           = [[(StdoutData, OnStdoutData), (StderrData, OnStderrData), (ProcClose, OnClose)]]
       \<and> step server_js_program w st (Stdout 0 d)
           = st\<lparr>console := console st @ [(ConsoleLog, lit ''[Python STDOUT]: '' @ trim d)]\<rparr>
       \<and> step server_js_program w st (Stderr 0 d)
           = st\<lparr>console := console st @ [(ConsoleError, lit ''[Python STDERR]: '' @ trim d)]\<rparr>
       \<and> step server_js_program w st (Close 0 code)
           = st\<lparr>console := console st @
                [(ConsoleLog, lit ''Python server process exited with code ''
                    @ (case code of None \<Rightarrow> lit ''null'' | Some c \<Rightarrow> int_to_string c))]\<rparr>
       \<and> (\<exists>a b. d = a @ trim d @ b \<and> list_all is_white_space a \<and> list_all is_white_space b)
       \<and> (trim d \<noteq> [] \<longrightarrow>
            \<not> is_white_space (hd (trim d)) \<and> \<not> is_white_space (last (trim d)))"
proof -
  have c: "children st = [gunicorn]"
    using assms(1,2) spawned_state by simp
  show ?thesis
    using c assms(3) step_stdout [of st w d] step_stderr [of st w d] step_close [of st w code]
      trim_decomposition [of d] trim_ends [of d]
    by simp
qed

theorem backend_output_relayed_by_chunk_witness:
  "children (run server_js_program express4 [Listening]) \<noteq> []
   \<and> exit_status (run server_js_program express4 [Listening]) = None
   \<and> console (step server_js_program express4 (run server_js_program express4 [Listening])
        (Stdout 0 (lit ''  one'' @ [0x0A] @ lit ''  two '' @ [0x0A])))
      = [(ConsoleLog, lit ''Node.js wrapper server listening on port 8080''),
         (ConsoleLog, lit ''Starting Python Gunicorn server...''),
         (ConsoleLog, lit ''[Python STDOUT]: one'' @ [0x0A] @ lit ''  two'')]
   \<and> console (step server_js_program express4 (run server_js_program express4 [Listening])
        (Close 0 None))
      = [(ConsoleLog, lit ''Node.js wrapper server listening on port 8080''),
         (ConsoleLog, lit ''Starting Python Gunicorn server...''),
         (ConsoleLog, lit ''Python server process exited with code null'')]"
proof -
  have c: "children (run server_js_program express4 [Listening]) \<noteq> []"
    by (simp add: run_def step_def)
  have e: "exit_status (run server_js_program express4 [Listening]) = None"
    by (simp add: run_def step_def)
  have l: "console (run server_js_program express4 [Listening])
      = [(ConsoleLog, lit ''Node.js wrapper server listening on port 8080''),
         (ConsoleLog, lit ''Starting Python Gunicorn server...'')]"
    by (simp add: run_def step_def) (simp add: express4_def PORT_cases)
  have t: "trim (lit ''  one'' @ [0x0A] @ lit ''  two '' @ [0x0A]) = lit ''one'' @ [0x0A] @ lit ''  two''"
    by (simp add: trim_def is_white_space_def)
  show ?thesis
    using c e l t
      backend_output_relayed_by_chunk [OF refl c e,
        of "lit ''  one'' @ [0x0A] @ lit ''  two '' @ [0x0A]" None]
    by simp
qed

text \<open>
  A chunk of two indented lines: relayed line by line, each with the prefix and without
  its trailing white space, it would give two entries that keep the indentation. The
  program writes one entry; the indentation of the first line is lost and the second
  line has no prefix.
\<close>

theorem line_relay_counterexample:
  "lines_of (lit ''  one'' @ [0x0A] @ lit ''  two '' @ [0x0A]) = [lit ''  one'', lit ''  two '']
   \<and> trimEnd (lit ''  one'') = lit ''  one''
   \<and> trimEnd (lit ''  two '') = lit ''  two''
   \<and> console (step server_js_program express4 (run server_js_program express4 [Listening])
        (Stdout 0 (lit ''  one'' @ [0x0A] @ lit ''  two '' @ [0x0A])))
      = console (run server_js_program express4 [Listening])
        @ [(ConsoleLog, lit ''[Python STDOUT]: one'' @ [0x0A] @ lit ''  two'')]
   \<and> console (step server_js_program express4 (run server_js_program express4 [Listening])
        (Stdout 0 (lit ''  one'' @ [0x0A] @ lit ''  two '' @ [0x0A])))
      \<noteq> console (run server_js_program express4 [Listening])
        @ [(ConsoleLog, lit ''[Python STDOUT]:   one''), (ConsoleLog, lit ''[Python STDOUT]:   two'')]"
proof -
  have c: "children (run server_js_program express4 [Listening]) = [gunicorn]"
    by (simp add: run_def step_def)
  have e: "exit_status (run server_js_program express4 [Listening]) = None"
    by (simp add: run_def step_def)
  have t: "trim (lit ''  one'' @ [0x0A] @ lit ''  two '' @ [0x0A]) = lit ''one'' @ [0x0A] @ lit ''  two''"
    by (simp add: trim_def is_white_space_def)
  have l: "lines_of (lit ''  one'' @ [0x0A] @ lit ''  two '' @ [0x0A]) = [lit ''  one'', lit ''  two '']"
    by (simp add: lines_of_def)
  have t1: "trimEnd (lit ''  one'') = lit ''  one''"
    by (simp add: trimEnd_def is_white_space_def)
  have t2: "trimEnd (lit ''  two '') = lit ''  two''"
    by (simp add: trimEnd_def is_white_space_def)
  show ?thesis
    using l t t1 t2 step_stdout [OF c e, of express4 "lit ''  one'' @ [0x0A] @ lit ''  two '' @ [0x0A]"]
    by simp
qed

section \<open>Requests\<close>

lemma lower_slash: "lower c = 0x2F \<longleftrightarrow> c = 0x2F"
  by (simp add: lower_def)

lemma mount_api:
  "mount_match (lit ''/api'') p \<longleftrightarrow>
     map lower (take 4 p) = lit ''/api'' \<and> (case drop 4 p of [] \<Rightarrow> True | c # cs \<Rightarrow> c = 0x2F)"
proof -
  have len: "length (lit ''/api'') = 4" by simp
  have low: "map lower (lit ''/api'') = lit ''/api''" by (simp add: lower_def)
  have ne: "lit ''/api'' \<noteq> lit ''/''" by simp
  show ?thesis
    unfolding mount_match_def len low using ne by blast
qed

lemma mount_api_iff:
  "mount_match (lit ''/api'') p \<longleftrightarrow>
     map lower p = lit ''/api'' \<or> map lower (take 5 p) = lit ''/api/''"
proof (cases "drop 4 p")
  case Nil
  then have len: "length p \<le> 4" by simp
  then have "take 4 p = p" and "take 5 p = p" by simp_all
  moreover have "map lower p \<noteq> lit ''/api/''"
  proof
    assume "map lower p = lit ''/api/''"
    then have "length (map lower p) = length (lit ''/api/'')" by simp
    then show False using len by simp
  qed
  ultimately show ?thesis
    unfolding mount_api using Nil by simp
next
  case (Cons c cs)
  have p: "p = take 4 p @ c # cs"
    using Cons append_take_drop_id [of 4 p] by simp
  have len: "length (take 4 p) = 4"
    using Cons by (cases "length p \<le> 4") simp_all
  have t5: "take 5 p = take 4 p @ [c]"
    using len
    by (subst p, subst take_append) simp
  have "map lower p \<noteq> lit ''/api''"
  proof
    assume "map lower p = lit ''/api''"
    then have "length (map lower p) = length (lit ''/api'')" by simp
    then have "length p = 4" by simp
    then show False using Cons by simp
  qed
  moreover have "map lower (take 5 p) = lit ''/api/''
      \<longleftrightarrow> map lower (take 4 p) = lit ''/api'' \<and> c = 0x2F"
  proof -
    have "lit ''/api/'' = lit ''/api'' @ [0x2F]" by simp
    then show ?thesis
      using len by (simp only: t5 map_append append_eq_append_conv length_map) (simp add: lower_slash)
  qed
  ultimately show ?thesis
    unfolding mount_api using Cons by simp
qed


lemma mount_root [simp]: "mount_match (lit ''/'') p"
  by (simp add: mount_match_def)

lemma pathname_fast:
  "fast_path u \<Longrightarrow> pathname w u = Some (takeWhile (\<lambda>c. c \<noteq> 0x3F) u)"
  by (simp add: pathname_def)

lemma pathname_lookup [simp]: "pathname (w\<lparr>lookup := files\<rparr>) u = pathname w u"
  by (simp add: pathname_def)

lemma app_handle_server_js:
  assumes "pathname w (url req) = Some p"
  shows "app_handle server_js_program w req =
     (if mount_match (lit ''/api'') p
      then (case net w (lit ''http://localhost:8081'')
                  (outgoing w \<lparr>target = lit ''http://localhost:8081'', changeOrigin = True\<rparr>
                     (lit ''/api'') req) of
              Answer r \<Rightarrow> Some r
            | Failure f \<Rightarrow>
                Some \<lparr>status = failure_status f, content_type = None,
                      payload = page w (failure_status f) req\<rparr>
            | Silence \<Rightarrow> None,
            [ProxyMiddleware \<lparr>target = lit ''http://localhost:8081'', changeOrigin = True\<rparr>])
      else (case serve_static w (dirname w) req p of
              Done r \<Rightarrow> Some r
            | Next \<Rightarrow> Some (final_answer w 404 req)
            | Throw code \<Rightarrow> Some (final_answer w code req)
            | NoAnswer \<Rightarrow> None,
            [ServeStatic (dirname w)]))"
proof -
  have root: "mount_match [47] p" for p
    using mount_root [of p] by simp
  have api: "mount_match [47, 97, 112, 105] p = mount_match (lit ''/api'') p" for p
    by simp
  show ?thesis
    using assms
    by (simp add: app_handle_def dispatch_def invoke_def proxy_middleware_def root api
        split: outcome.splits upstream.splits del: lit_simps)
qed

lemma app_handle_no_path:
  assumes "pathname w (url req) = None"
  shows "app_handle server_js_program w req = (Some (final_answer w 404 req), [])"
  using assms by (simp add: app_handle_def dispatch_def)

text \<open>
  C9, amended. A request whose path, with its ASCII letters lowered, is \<open>/api\<close> or starts
  with \<open>/api/\<close> is handled by the proxy middleware alone: the static middleware is not
  invoked, and the outcome does not depend on the files below the static root. Every
  other request that has a path, also one whose path begins with the characters \<open>/api\<close>
  and goes on otherwise, is handled by the static middleware and not by the proxy.
\<close>

theorem api_requests_never_reach_static:
  assumes "pathname w (url req) = Some p"
  shows "(map lower p = lit ''/api'' \<or> map lower (take 5 p) = lit ''/api/'' \<longrightarrow>
            snd (app_handle server_js_program w req)
              = [ProxyMiddleware \<lparr>target = lit ''http://localhost:8081'', changeOrigin = True\<rparr>]
            \<and> app_handle server_js_program (w\<lparr>lookup := files\<rparr>) req
                = app_handle server_js_program w req)
       \<and> (\<not> (map lower p = lit ''/api'' \<or> map lower (take 5 p) = lit ''/api/'') \<longrightarrow>
            snd (app_handle server_js_program w req) = [ServeStatic (dirname w)])"
proof -
  have p': "pathname (w\<lparr>lookup := files\<rparr>) (url req) = Some p"
    using assms by simp
  show ?thesis
    unfolding app_handle_server_js [OF assms] app_handle_server_js [OF p'] mount_api_iff
    by (simp del: lit_simps split: upstream.splits)
qed


lemma get_fields [simp]:
  "verb (get u) = lit ''GET''" "url (get u) = lit u" "headers (get u) = Map.empty"
  by (simp_all add: get_def)

lemma get_plain [simp]: "\<not> preconditioned (get u)"
  by (simp add: preconditioned_def)

theorem api_requests_never_reach_static_witness:
  "pathname express4 (url (get ''/API/voices?lang=hi'')) = Some (lit ''/API/voices'')
   \<and> map lower (take 5 (lit ''/API/voices'')) = lit ''/api/''
   \<and> snd (app_handle server_js_program express4 (get ''/API/voices?lang=hi''))
       = [ProxyMiddleware \<lparr>target = lit ''http://localhost:8081'', changeOrigin = True\<rparr>]
   \<and> pathname express4 (url (get ''/apidocs'')) = Some (lit ''/apidocs'')
   \<and> snd (app_handle server_js_program express4 (get ''/apidocs''))
       = [ServeStatic (dirname express4)]"
proof -
  have p: "pathname express4 (url (get ''/API/voices?lang=hi'')) = Some (lit ''/API/voices'')"
    by (simp add: pathname_def fast_path_def)
  have m: "map lower (take 5 (lit ''/API/voices'')) = lit ''/api/''"
    by (simp add: lower_def)
  have q: "pathname express4 (url (get ''/apidocs'')) = Some (lit ''/apidocs'')"
    by (simp add: pathname_def fast_path_def)
  have n: "\<not> (map lower (lit ''/apidocs'') = lit ''/api''
      \<or> map lower (take 5 (lit ''/apidocs'')) = lit ''/api/'')"
    by (simp add: lower_def)
  from api_requests_never_reach_static [OF p, of example_files] m
  have a: "snd (app_handle server_js_program express4 (get ''/API/voices?lang=hi''))
       = [ProxyMiddleware \<lparr>target = lit ''http://localhost:8081'', changeOrigin = True\<rparr>]"
    by blast
  from api_requests_never_reach_static [OF q, of example_files] n
  have b: "snd (app_handle server_js_program express4 (get ''/apidocs''))
       = [ServeStatic (dirname express4)]"
    by blast
  from p m a q b show ?thesis
    by blast
qed

text \<open>
  The path \<open>/api.html\<close> begins with \<open>/api\<close>, but the mount path \<open>/api\<close> does not take it:
  the request reaches the static middleware, which serves the file of that name.
\<close>

theorem static_file_under_api_prefix_counterexample:
  "pathname express4 (url (get ''/api.html'')) = Some (lit ''/api.html'')
   \<and> take 4 (lit ''/api.html'') = lit ''/api''
   \<and> lookup express4 (dirname express4) (lit ''/api.html'') = File (lit ''<html>api</html>'')
   \<and> app_handle server_js_program express4 (get ''/api.html'')
       = (Some \<lparr>status = 200, content_type = Some (lit ''text/html; charset=UTF-8''),
                payload = lit ''<html>api</html>''\<rparr>,
          [ServeStatic (lit ''/srv/app'')])"
proof -
  have p: "pathname express4 (url (get ''/api.html'')) = Some (lit ''/api.html'')"
    by (simp add: pathname_def fast_path_def)
  have m: "\<not> mount_match (lit ''/api'') (lit ''/api.html'')"
    unfolding mount_api_iff by (simp add: lower_def)
  have s: "serve_static express4 (dirname express4) (get ''/api.html'') (lit ''/api.html'')
      = Done \<lparr>status = 200, content_type = Some (lit ''text/html; charset=UTF-8''),
           payload = lit ''<html>api</html>''\<rparr>"
    by (simp add: serve_static_def express4_def example_files_def send_file_def
        ends_with_slash_def)
  have d: "dirname express4 = lit ''/srv/app''"
    by (simp add: express4_def)
  have l: "lookup express4 (dirname express4) (lit ''/api.html'') = File (lit ''<html>api</html>'')"
    by (simp add: express4_def example_files_def)
  have t: "take 4 (lit ''/api.html'') = lit ''/api''"
    by simp
  show ?thesis
    unfolding app_handle_server_js [OF p] using m s l t p by (simp add: d)
qed

text \<open>
  C4, amended. When the connection to \<open>http://localhost:8081\<close> is refused or reset (the
  backend is not started, has crashed or refuses connections), a request whose path,
  with its ASCII letters lowered, is \<open>/api\<close> or starts with \<open>/api/\<close> is answered by the proxy
  middleware alone, with status 504 (Gateway Timeout), no content type and the error
  text of the library: the request has an answer, which rests on that one failed
  attempt and on nothing the backend would answer to another one.
\<close>

theorem unreachable_backend_gives_504:
  assumes "pathname w (url req) = Some p"
    and "map lower p = lit ''/api'' \<or> map lower (take 5 p) = lit ''/api/''"
    and "net w (lit ''http://localhost:8081'')
           (outgoing w \<lparr>target = lit ''http://localhost:8081'', changeOrigin = True\<rparr>
              (lit ''/api'') req) = Failure f"
    and "f = ECONNREFUSED \<or> f = ECONNRESET"
  shows "app_handle server_js_program w req
           = (Some \<lparr>status = 504, content_type = None, payload = page w 504 req\<rparr>,
              [ProxyMiddleware \<lparr>target = lit ''http://localhost:8081'', changeOrigin = True\<rparr>])"
proof -
  have m: "mount_match (lit ''/api'') p"
    using assms(2) by (simp only: mount_api_iff)
  have s: "failure_status f = 504"
    using assms(4) by auto
  show ?thesis
    unfolding app_handle_server_js [OF assms(1)] using m assms(3) s by (simp del: lit_simps)
qed

theorem unreachable_backend_gives_504_witness:
  "pathname backend_down (url (get ''/api'')) = Some (lit ''/api'')
   \<and> map lower (lit ''/api'') = lit ''/api''
   \<and> net backend_down (lit ''http://localhost:8081'')
        (outgoing backend_down \<lparr>target = lit ''http://localhost:8081'', changeOrigin = True\<rparr>
           (lit ''/api'') (get ''/api'')) = Failure ECONNREFUSED
   \<and> app_handle server_js_program backend_down (get ''/api'')
       = (Some \<lparr>status = 504, content_type = None, payload = lit ''error''\<rparr>,
          [ProxyMiddleware \<lparr>target = lit ''http://localhost:8081'', changeOrigin = True\<rparr>])"
proof -
  have p: "pathname backend_down (url (get ''/api'')) = Some (lit ''/api'')"
    by (simp add: pathname_def fast_path_def)
  have m: "map lower (lit ''/api'') = lit ''/api''"
    by (simp add: lower_def)
  have n: "net backend_down (lit ''http://localhost:8081'')
        (outgoing backend_down \<lparr>target = lit ''http://localhost:8081'', changeOrigin = True\<rparr>
           (lit ''/api'') (get ''/api'')) = Failure ECONNREFUSED"
    by (simp add: backend_down_def)
  have g: "page backend_down 504 (get ''/api'') = lit ''error''"
    by (simp add: backend_down_def express4_def)
  from unreachable_backend_gives_504 [OF p disjI1 [OF m] n disjI1 [OF refl]] g
  have "app_handle server_js_program backend_down (get ''/api'')
       = (Some \<lparr>status = 504, content_type = None, payload = lit ''error''\<rparr>,
          [ProxyMiddleware \<lparr>target = lit ''http://localhost:8081'', changeOrigin = True\<rparr>])"
    by simp
  with p m n show ?thesis
    by blast
qed

text \<open>
  The model can tell an answer from none: while the backend accepts the connection and
  stays silent, the request has no answer, since lines 33 to 36 set no timeout.
\<close>

lemma silent_backend_leaves_request_open:
  assumes "pathname w (url req) = Some p"
    and "map lower p = lit ''/api'' \<or> map lower (take 5 p) = lit ''/api/''"
    and "net w (lit ''http://localhost:8081'')
           (outgoing w \<lparr>target = lit ''http://localhost:8081'', changeOrigin = True\<rparr>
              (lit ''/api'') req) = Silence"
  shows "app_handle server_js_program w req
           = (None,
              [ProxyMiddleware \<lparr>target = lit ''http://localhost:8081'', changeOrigin = True\<rparr>])"
proof -
  have m: "mount_match (lit ''/api'') p"
    using assms(2) by (simp only: mount_api_iff)
  show ?thesis
    unfolding app_handle_server_js [OF assms(1)] using m assms(3) by (simp del: lit_simps)
qed

text \<open>
  The path \<open>/apidocs\<close> begins with \<open>/api\<close> but is not below the mount path: with the
  backend down the request is answered by the static side, here with 404.
\<close>

theorem unreachable_backend_counterexample:
  "pathname backend_down (url (get ''/apidocs'')) = Some (lit ''/apidocs'')
   \<and> take 4 (lit ''/apidocs'') = lit ''/api''
   \<and> net backend_down (lit ''http://localhost:8081'') (get ''/apidocs'') = Failure ECONNREFUSED
   \<and> app_handle server_js_program backend_down (get ''/apidocs'')
       = (Some \<lparr>status = 404, content_type = Some (lit ''text/html; charset=utf-8''),
                payload = lit ''error''\<rparr>,
          [ServeStatic (lit ''/srv/app'')])"
proof -
  have p: "pathname backend_down (url (get ''/apidocs'')) = Some (lit ''/apidocs'')"
    by (simp add: pathname_def fast_path_def)
  have m: "\<not> mount_match (lit ''/api'') (lit ''/apidocs'')"
    unfolding mount_api_iff by (simp add: lower_def)
  have s: "serve_static backend_down (dirname backend_down) (get ''/apidocs'') (lit ''/apidocs'')
      = Next"
    by (simp add: serve_static_def backend_down_def express4_def example_files_def
        ends_with_slash_def)
  have t: "take 4 (lit ''/apidocs'') = lit ''/api''"
    by simp
  have n: "net backend_down (lit ''http://localhost:8081'') (get ''/apidocs'') = Failure ECONNREFUSED"
    by (simp add: backend_down_def)
  have d: "dirname backend_down = lit ''/srv/app''"
    "final_answer backend_down 404 (get ''/apidocs'')
      = \<lparr>status = 404, content_type = Some (lit ''text/html; charset=utf-8''),
         payload = lit ''error''\<rparr>"
    by (simp_all add: backend_down_def express4_def final_answer_def)
  show ?thesis
    unfolding app_handle_server_js [OF p] using m s t n p by (simp add: d)
qed


text \<open>
  C2, amended. For a request whose path is not below the mount path \<open>/api\<close> (with its
  ASCII letters lowered, it is not \<open>/api\<close> and does not start with \<open>/api/\<close>):
  \<^item> a \<open>GET\<close> without precondition and without range whose path resolves to a file
    below the static root is answered with status 200, the inferred content type and
    the bytes of the file (a \<open>HEAD\<close> with the same and no body); with a precondition or
    a range the answer is the conditional one of the static middleware;
  \<^item> a path that ends with a slash is answered in the same way with the \<open>index.html\<close>
    of the directory it resolves to;
  \<^item> a path without a final slash that resolves to a directory is answered with a
    redirect (301);
  \<^item> what cannot be read is answered with status 500;
  \<^item> in every other case (no such file, no \<open>index.html\<close> in the directory, a path the
    middleware refuses, another method than \<open>GET\<close> and \<open>HEAD\<close>) the answer is 404 Not
    Found, whether or not the static root holds an index document: the program has no
    fallback route.
\<close>

theorem static_files_without_fallback:
  assumes "pathname w (url req) = Some p"
    and "\<not> (map lower p = lit ''/api'' \<or> map lower (take 5 p) = lit ''/api/'')"
  shows "(verb req = lit ''GET'' \<or> verb req = lit ''HEAD'' \<longrightarrow>
            resolve w p = Some q \<longrightarrow> \<not> ends_with_slash p \<longrightarrow>
            lookup w (dirname w) q = File bytes \<longrightarrow>
            fst (app_handle server_js_program w req)
              = Some (if preconditioned req then conditional w req q bytes
                      else \<lparr>status = 200, content_type = Some (mime w q),
                            payload = (if verb req = lit ''HEAD'' then [] else bytes)\<rparr>))
       \<and> (verb req = lit ''GET'' \<or> verb req = lit ''HEAD'' \<longrightarrow>
            resolve w p = Some q \<longrightarrow> ends_with_slash p \<longrightarrow>
            lookup w (dirname w) (index_of q) = File bytes \<longrightarrow>
            fst (app_handle server_js_program w req)
              = Some (if preconditioned req then conditional w req (index_of q) bytes
                      else \<lparr>status = 200, content_type = Some (mime w (index_of q)),
                            payload = (if verb req = lit ''HEAD'' then [] else bytes)\<rparr>))
       \<and> (verb req = lit ''GET'' \<or> verb req = lit ''HEAD'' \<longrightarrow>
            resolve w p = Some q \<longrightarrow> \<not> ends_with_slash p \<longrightarrow>
            lookup w (dirname w) q = Directory \<longrightarrow>
            fst (app_handle server_js_program w req)
              = Some \<lparr>status = 301, content_type = Some (lit ''text/html; charset=UTF-8''),
                      payload = page w 301 req\<rparr>)
       \<and> (verb req = lit ''GET'' \<or> verb req = lit ''HEAD'' \<longrightarrow>
            resolve w p = Some q \<longrightarrow>
            lookup w (dirname w) (if ends_with_slash p then index_of q else q) = Unreadable \<longrightarrow>
            fst (app_handle server_js_program w req) = Some (final_answer w 500 req))
       \<and> (verb req = lit ''GET'' \<or> verb req = lit ''HEAD'' \<longrightarrow>
            resolve w p = Some q \<longrightarrow> \<not> ends_with_slash p \<longrightarrow>
            lookup w (dirname w) q = Absent \<longrightarrow>
            fst (app_handle server_js_program w req) = Some (final_answer w 404 req))
       \<and> (verb req = lit ''GET'' \<or> verb req = lit ''HEAD'' \<longrightarrow>
            resolve w p = Some q \<longrightarrow> ends_with_slash p \<longrightarrow>
            lookup w (dirname w) (index_of q) \<in> {Directory, Absent} \<longrightarrow>
            fst (app_handle server_js_program w req) = Some (final_answer w 404 req))
       \<and> (resolve w p = None \<longrightarrow>
            fst (app_handle server_js_program w req) = Some (final_answer w 404 req))
       \<and> (verb req \<noteq> lit ''GET'' \<longrightarrow> verb req \<noteq> lit ''HEAD'' \<longrightarrow>
            fst (app_handle server_js_program w req) = Some (final_answer w 404 req))
       \<and> status (final_answer w 404 req) = 404 \<and> status (final_answer w 500 req) = 500"
proof -
  have m: "\<not> mount_match (lit ''/api'') p"
    using assms(2) unfolding mount_api_iff by blast
  have h: "fst (app_handle server_js_program w req)
      = (case serve_static w (dirname w) req p of
           Done r \<Rightarrow> Some r
         | Next \<Rightarrow> Some (final_answer w 404 req)
         | Throw code \<Rightarrow> Some (final_answer w code req)
         | NoAnswer \<Rightarrow> None)"
    unfolding app_handle_server_js [OF assms(1)] using m by (simp del: lit_simps)
  show ?thesis
    unfolding h serve_static_def send_file_def
    by (auto simp add: final_answer_def simp del: lit_simps)
qed


theorem static_files_without_fallback_witness:
  "pathname express4 (url (get ''/index.html'')) = Some (lit ''/index.html'')
   \<and> \<not> (map lower (lit ''/index.html'') = lit ''/api''
        \<or> map lower (take 5 (lit ''/index.html'')) = lit ''/api/'')
   \<and> fst (app_handle server_js_program express4 (get ''/index.html''))
       = Some \<lparr>status = 200, content_type = Some (lit ''text/html; charset=UTF-8''),
               payload = lit ''<html>home</html>''\<rparr>
   \<and> fst (app_handle server_js_program express4 (get ''/''))
       = Some \<lparr>status = 200, content_type = Some (lit ''text/html; charset=UTF-8''),
               payload = lit ''<html>home</html>''\<rparr>
   \<and> fst (app_handle server_js_program express4 (get ''/missing-page''))
       = Some (final_answer express4 404 (get ''/missing-page''))"
proof -
  have p1: "pathname express4 (url (get ''/index.html'')) = Some (lit ''/index.html'')"
    by (simp add: pathname_def fast_path_def)
  have n1: "\<not> (map lower (lit ''/index.html'') = lit ''/api''
        \<or> map lower (take 5 (lit ''/index.html'')) = lit ''/api/'')"
    by (simp add: lower_def)
  have p2: "pathname express4 (url (get ''/'')) = Some (lit ''/'')"
    by (simp add: pathname_def fast_path_def)
  have n2: "\<not> (map lower (lit ''/'') = lit ''/api''
        \<or> map lower (take 5 (lit ''/'')) = lit ''/api/'')"
    by (simp add: lower_def)
  have p3: "pathname express4 (url (get ''/missing-page'')) = Some (lit ''/missing-page'')"
    by (simp add: pathname_def fast_path_def)
  have n3: "\<not> (map lower (lit ''/missing-page'') = lit ''/api''
        \<or> map lower (take 5 (lit ''/missing-page'')) = lit ''/api/'')"
    by (simp add: lower_def)
  have a: "fst (app_handle server_js_program express4 (get ''/index.html''))
       = Some \<lparr>status = 200, content_type = Some (lit ''text/html; charset=UTF-8''),
               payload = lit ''<html>home</html>''\<rparr>"
    using static_files_without_fallback [OF p1 n1,
        where q = "lit ''/index.html''" and bytes = "lit ''<html>home</html>''"]
    by (simp add: express4_def example_files_def ends_with_slash_def)
  have b: "fst (app_handle server_js_program express4 (get ''/''))
       = Some \<lparr>status = 200, content_type = Some (lit ''text/html; charset=UTF-8''),
               payload = lit ''<html>home</html>''\<rparr>"
    using static_files_without_fallback [OF p2 n2,
        where q = "lit ''/''" and bytes = "lit ''<html>home</html>''"]
    by (simp add: express4_def example_files_def index_of_def ends_with_slash_def)
  have c: "fst (app_handle server_js_program express4 (get ''/missing-page''))
       = Some (final_answer express4 404 (get ''/missing-page''))"
    using static_files_without_fallback [OF p3 n3, where q = "lit ''/missing-page''"]
    by (simp add: express4_def example_files_def ends_with_slash_def)
  from p1 n1 a b c show ?thesis
    by blast
qed

text \<open>
  \<open>GET /missing-page\<close> with no such file and with \<open>index.html\<close> present: the static
  middleware passes the request on, no other layer is left, and Express answers 404
  with its own text instead of the index document.
\<close>

theorem index_fallback_counterexample:
  "pathname express4 (url (get ''/missing-page'')) = Some (lit ''/missing-page'')
   \<and> take 4 (lit ''/missing-page'') \<noteq> lit ''/api''
   \<and> lookup express4 (dirname express4) (lit ''/missing-page'') = Absent
   \<and> lookup express4 (dirname express4) (lit ''/index.html'') = File (lit ''<html>home</html>'')
   \<and> app_handle server_js_program express4 (get ''/missing-page'')
       = (Some \<lparr>status = 404, content_type = Some (lit ''text/html; charset=utf-8''),
                payload = lit ''error''\<rparr>,
          [ServeStatic (lit ''/srv/app'')])"
proof -
  have p: "pathname express4 (url (get ''/missing-page'')) = Some (lit ''/missing-page'')"
    by (simp add: pathname_def fast_path_def)
  have m: "\<not> mount_match (lit ''/api'') (lit ''/missing-page'')"
    unfolding mount_api_iff by (simp add: lower_def)
  have s: "serve_static express4 (dirname express4) (get ''/missing-page'') (lit ''/missing-page'')
      = Next"
    by (simp add: serve_static_def express4_def example_files_def ends_with_slash_def)
  have t: "take 4 (lit ''/missing-page'') \<noteq> lit ''/api''"
    by simp
  have l: "lookup express4 (dirname express4) (lit ''/missing-page'') = Absent"
    "lookup express4 (dirname express4) (lit ''/index.html'') = File (lit ''<html>home</html>'')"
    by (simp_all add: express4_def example_files_def)
  have d: "dirname express4 = lit ''/srv/app''"
    "final_answer express4 404 (get ''/missing-page'')
      = \<lparr>status = 404, content_type = Some (lit ''text/html; charset=utf-8''),
         payload = lit ''error''\<rparr>"
    by (simp_all add: express4_def final_answer_def)
  show ?thesis
    unfolding app_handle_server_js [OF p] using m s t l p by (simp add: d)
qed



section \<open>The two source files\<close>

lemma part_000_call_eq: "part_000_call = call"
proof (intro ext)
  fix l sg st
  show "part_000_call l sg st = call l sg st"
    by (cases l; cases sg) simp_all
qed

lemma part_000_eq: "part_000 = server_js"
  by (intro ext) (simp add: part_000_def server_js_def part_000_PORT_def PORT_def
      part_000_PYTHON_PORT_def PYTHON_PORT_def)

lemma part_000_listen_callback_eq: "part_000_listen_callback = listen_callback"
  by (intro ext) (simp add: part_000_listen_callback_def listen_callback_def
      part_000_startPythonServer_def startPythonServer_def part_000_PORT_def PORT_def
      part_000_PYTHON_PORT_def PYTHON_PORT_def)

text \<open>
  C10. The embedding of lines 1 to 46 of \<open>unnamed/part_000\<close> and the embedding of lines
  1 to 46 of \<open>server.js\<close> are the same program: the same top level, listen callback and
  listeners, hence the same state after every sequence of events and the same answer
  to every request, in every world.
\<close>

theorem part_000_same_as_server_js:
  "part_000_program = server_js_program
   \<and> run part_000_program w evs = run server_js_program w evs
   \<and> app_handle part_000_program w req = app_handle server_js_program w req"
  by (simp add: part_000_program_def server_js_program_def part_000_call_eq part_000_eq
      part_000_listen_callback_eq)

theorem part_000_same_as_server_js_witness:
  "run part_000_program express4 [Listening, Stdout 0 (lit ''ready ''), Close 0 (Some 0)]
     = run server_js_program express4 [Listening, Stdout 0 (lit ''ready ''), Close 0 (Some 0)]
   \<and> console (run part_000_program express4 [Listening, Stdout 0 (lit ''ready ''), Close 0 (Some 0)])
     = [(ConsoleLog, lit ''Node.js wrapper server listening on port 8080''),
        (ConsoleLog, lit ''Starting Python Gunicorn server...''),
        (ConsoleLog, lit ''[Python STDOUT]: ready''),
        (ConsoleLog, lit ''Python server process exited with code 0'')]
   \<and> app_handle part_000_program express4 (get ''/api/voices'')
     = app_handle server_js_program express4 (get ''/api/voices'')"
proof -
  have c: "console (run server_js_program express4
             [Listening, Stdout 0 (lit ''ready ''), Close 0 (Some 0)])
     = [(ConsoleLog, lit ''Node.js wrapper server listening on port 8080''),
        (ConsoleLog, lit ''Starting Python Gunicorn server...''),
        (ConsoleLog, lit ''[Python STDOUT]: ready''),
        (ConsoleLog, lit ''Python server process exited with code 0'')]"
    by (simp add: run_def step_def emit_def)
      (simp add: express4_def PORT_cases trim_def is_white_space_def
        int_to_string_def number_to_string.simps [of 0] digit_def)
  show ?thesis
    using c part_000_same_as_server_js
      [of express4 "[Listening, Stdout 0 (lit ''ready ''), Close 0 (Some 0)]" "get ''/api/voices''"]
    by simp
qed

end
